theory Spec2Isabelle
  imports Complex_Main
begin

chapter \<open>The systematic-alpha decision pipeline\<close>

text \<open>
  The pipeline is written in the repository as task files: each task has a
  \<^emph>\<open>Processing Logic\<close> part (numbered steps of IF/ELSE pseudo-code) and a
  \<^emph>\<open>Decision Rules\<close> part.  The embedding follows the processing logic step by
  step.  Dollar amounts, percentages and contract counts are real numbers, as the
  pseudo-code divides and multiplies them freely; rounding is written where the source
  says "round down".  Strings are compared as the source compares them.  A rule of the
  Decision Rules part is embedded where it adds behaviour the steps leave open (the
  override conditions of the mechanism selector, the invalid-data rules of the beta
  weighting).
\<close>

section \<open>Definitions\<close>

subsection \<open>Define Market Disposition, Step 5\<close>

text \<open>
  The seven signal scores of Steps 1 to 4 and their unweighted sum.
\<close>

record signals =
  trend_signal :: int
  momentum_signal :: int
  vol_signal :: int
  vix_trend :: int
  sector_signal :: int
  leadership_signal :: int
  econ_signal :: int

definition total_score :: "signals \<Rightarrow> int" where
  "total_score s =
     trend_signal s + momentum_signal s + vol_signal s + vix_trend s
       + sector_signal s + leadership_signal s + econ_signal s"

datatype disposition = STRONG_BULL | BULL | NEUTRAL | BEAR | STRONG_BEAR

text \<open>The IF/ELSE IF chain of "Disposition Determination", in the source's order.\<close>

definition market_disposition :: "int \<Rightarrow> disposition" where
  "market_disposition score =
     (if score \<ge> 5 then STRONG_BULL
      else if score \<ge> 2 then BULL
      else if score \<ge> -1 then NEUTRAL
      else if score \<ge> -4 then BEAR
      else STRONG_BEAR)"

definition recommended_delta_target :: "int \<Rightarrow> int" where
  "recommended_delta_target score =
     (if score \<ge> 5 then 60
      else if score \<ge> 2 then 40
      else if score \<ge> -1 then 0
      else if score \<ge> -4 then -40
      else -60)"

text \<open>
  The table "Score Interpretation" of the same task file, read as a function: the
  documented bands (+7 to +10, +2 to +6, -1 to +1, -6 to -2, -10 to -7).  It is kept
  apart from the processing logic above, to compare the two.
\<close>

definition score_interpretation :: "int \<Rightarrow> disposition" where
  "score_interpretation score =
     (if score \<ge> 7 then STRONG_BULL
      else if score \<ge> 2 then BULL
      else if score \<ge> -1 then NEUTRAL
      else if score \<ge> -6 then BEAR
      else STRONG_BEAR)"

subsection \<open>Calculate Position Sizing\<close>

text \<open>
  Steps 1, 2 and 4 are lookups on the position type and the conviction level.  The
  source ends the first two chains with "ERROR: Invalid ..."; \<open>None\<close> is that error.
  Step 4 has no ELSE branch: outside the six listed pairs no value is assigned.
\<close>

definition base_allocation_pct :: "string \<Rightarrow> real option" where
  "base_allocation_pct position_type =
     (if position_type = ''core'' then Some 0.10
      else if position_type = ''speculative'' then Some 0.02
      else None)"

definition conviction_multiplier :: "string \<Rightarrow> real option" where
  "conviction_multiplier conviction_level =
     (if conviction_level = ''HIGH'' then Some 1.0
      else if conviction_level = ''MODERATE'' then Some 0.7
      else if conviction_level = ''LOW'' then Some 0.5
      else None)"

definition max_risk_pct :: "string \<Rightarrow> string \<Rightarrow> real option" where
  "max_risk_pct position_type conviction_level =
     (if position_type = ''core'' then
        (if conviction_level = ''HIGH'' then Some 0.03
         else if conviction_level = ''MODERATE'' then Some 0.02
         else if conviction_level = ''LOW'' then Some 0.01
         else None)
      else if position_type = ''speculative'' then
        (if conviction_level = ''HIGH'' then Some 0.02
         else if conviction_level = ''MODERATE'' then Some 0.015
         else if conviction_level = ''LOW'' then Some 0.01
         else None)
      else None)"

text \<open>
  Step 5 has one rule per structure family: debit spreads take the minimum of the
  allocation count and the risk count, credit spreads the risk count alone, stock
  positions the allocation count in round lots of 100 shares or, "alternatively, based
  on stop loss", the risk budget over the distance to the stop.
\<close>

datatype structure_family = DebitSpread | CreditSpread | StockPosition | StockStopLoss

definition round_down :: "real \<Rightarrow> real" where
  "round_down x = of_int \<lfloor>x\<rfloor>"

definition contracts_from_allocation :: "real \<Rightarrow> real \<Rightarrow> real" where
  "contracts_from_allocation dollar_allocation debit_paid =
     round_down (dollar_allocation / debit_paid)"

definition contracts_from_risk :: "real \<Rightarrow> real \<Rightarrow> real" where
  "contracts_from_risk max_dollar_risk max_loss = round_down (max_dollar_risk / max_loss)"

definition round_lot :: "real \<Rightarrow> real" where
  "round_lot shares = of_int (\<lfloor>shares / 100\<rfloor> * 100)"

definition step5_contracts ::
  "structure_family \<Rightarrow> real \<Rightarrow> real \<Rightarrow> real \<Rightarrow> real \<Rightarrow> real" where
  "step5_contracts family dollar_allocation max_dollar_risk capital max_loss =
     (case family of
        DebitSpread \<Rightarrow>
          min (contracts_from_allocation dollar_allocation capital)
              (contracts_from_risk max_dollar_risk max_loss)
      | CreditSpread \<Rightarrow> contracts_from_risk max_dollar_risk max_loss
      | StockPosition \<Rightarrow> round_lot (dollar_allocation / capital)
      | StockStopLoss \<Rightarrow> max_dollar_risk / max_loss)"

text \<open>Step 6: the correlation reduction, applied only above 0.5, then rounded down.\<close>

definition correlation_reduction :: "real \<Rightarrow> real" where
  "correlation_reduction correlation =
     (if correlation > 0.8 then 0.5
      else if correlation > 0.7 then 0.7
      else if correlation > 0.5 then 0.85
      else 1)"

definition correlation_applies :: "real option \<Rightarrow> bool" where
  "correlation_applies current_position_correlation =
     (case current_position_correlation of
        None \<Rightarrow> False
      | Some correlation \<Rightarrow> correlation > 0.5)"

definition step6_contracts :: "real option \<Rightarrow> real \<Rightarrow> real" where
  "step6_contracts current_position_correlation contracts =
     (case current_position_correlation of
        None \<Rightarrow> contracts
      | Some correlation \<Rightarrow>
          if correlation > 0.5
          then round_down (contracts * correlation_reduction correlation)
          else contracts)"

text \<open>
  Step 7: the single-ticker concentration limit.  The source takes the minimum with
  \<open>max_contracts\<close> as computed, without rounding it.
\<close>

definition over_ticker_limit :: "real option \<Rightarrow> real \<Rightarrow> real \<Rightarrow> real \<Rightarrow> bool" where
  "over_ticker_limit existing_exposure_pct portfolio position_value_per_contract contracts =
     (case existing_exposure_pct of
        None \<Rightarrow> False
      | Some existing \<Rightarrow>
          existing + contracts * position_value_per_contract / portfolio > 0.15)"

definition step7_contracts :: "real option \<Rightarrow> real \<Rightarrow> real \<Rightarrow> real \<Rightarrow> real" where
  "step7_contracts existing_exposure_pct portfolio position_value_per_contract contracts =
     (case existing_exposure_pct of
        None \<Rightarrow> contracts
      | Some existing \<Rightarrow>
          let new_exposure_value = contracts * position_value_per_contract;
              new_exposure_pct = new_exposure_value / portfolio;
              total_ticker_exposure = existing + new_exposure_pct
          in if total_ticker_exposure > 0.15
             then let max_allowable_new = (0.15 - existing) * portfolio;
                      max_contracts = max_allowable_new / position_value_per_contract
                  in min contracts max_contracts
             else contracts)"

text \<open>
  The inputs of the task.  \<open>capital_per_contract\<close> is what the source calls
  \<open>debit_paid\<close>, \<open>stock_price\<close>, \<open>position_value_per_contract\<close> and
  \<open>capital_per_contract\<close> in turn; \<open>max_loss_per_spread\<close> is the distance to the
  stop for a stock position sized from its stop loss.
\<close>

record sizing_input =
  portfolio_total_value :: real
  position_type :: string
  conviction_level :: string
  trade_structure :: structure_family
  capital_per_contract :: real
  max_loss_per_spread :: real
  current_position_correlation :: "real option"
  existing_exposure_pct :: "real option"

record sizing_result =
  initial_contracts :: real
  final_contracts :: real
  total_risk :: real
  recommendation :: "string option"
  sizing_warnings :: "string list"

datatype sizing_error = InvalidPositionType | InvalidConvictionLevel | RiskExceedsFivePercent

text \<open>
  Step 8, checks 1 to 3, leave messages; check 4 aborts.  Step 7's "SKIP"
  recommendation is overwritten by check 1 of Step 8, which has the same condition.
  The count that Step 6 adjusts is the one Steps 7 and 8 go on with.
\<close>

definition step8_warnings :: "real \<Rightarrow> real \<Rightarrow> real \<Rightarrow> string list" where
  "step8_warnings contracts capital portfolio =
     (if contracts = 1
      then [''Single contract position - consider if worth transaction costs'']
      else [])
     @ (if contracts * capital > portfolio * 0.15
        then [''Position exceeds 15% portfolio - reduce size'']
        else [])"

definition calculate_sizing :: "sizing_input \<Rightarrow> sizing_error + sizing_result" where
  "calculate_sizing inp =
     (case base_allocation_pct (position_type inp) of
        None \<Rightarrow> Inl InvalidPositionType
      | Some base \<Rightarrow>
     (case conviction_multiplier (conviction_level inp) of
        None \<Rightarrow> Inl InvalidConvictionLevel
      | Some multiplier \<Rightarrow>
     (case max_risk_pct (position_type inp) (conviction_level inp) of
        None \<Rightarrow> Inl InvalidConvictionLevel
      | Some risk_pct \<Rightarrow>
          let portfolio = portfolio_total_value inp;
              dollar_allocation = portfolio * (base * multiplier);
              max_dollar_risk = portfolio * risk_pct;
              initial = step5_contracts (trade_structure inp) dollar_allocation
                          max_dollar_risk (capital_per_contract inp) (max_loss_per_spread inp);
              adjusted = step6_contracts (current_position_correlation inp) initial;
              final = step7_contracts (existing_exposure_pct inp) portfolio
                        (capital_per_contract inp) adjusted;
              risk = final * max_loss_per_spread inp
          in if risk / portfolio * 100 > 5 then Inl RiskExceedsFivePercent
             else Inr \<lparr> initial_contracts = initial,
                        final_contracts = final,
                        total_risk = risk,
                        recommendation =
                          (if final < 1
                           then Some ''Position too small - consider larger portfolio or different trade''
                           else None),
                        sizing_warnings =
                          (if correlation_applies (current_position_correlation inp)
                           then [''Position size reduced due to correlation with existing holdings'']
                           else [])
                          @ (if over_ticker_limit (existing_exposure_pct inp) portfolio
                                  (capital_per_contract inp) adjusted
                             then [''Total exposure to ticker exceeds 15% limit'']
                             else [])
                          @ step8_warnings final (capital_per_contract inp) portfolio \<rparr>)))"

subsection \<open>Pre-Trade Checklist, Section 4: the limits by position type\<close>

text \<open>
  Both chains of Section 4 lack an ELSE branch; \<open>None\<close> is "no limit assigned".  The
  values are percentages, as the section compares them with \<open>position_pct\<close> and
  \<open>max_loss_pct\<close>, which are multiplied by 100.
\<close>

definition max_pct :: "string \<Rightarrow> real option" where
  "max_pct ptype =
     (if ptype = ''core'' then Some 10
      else if ptype = ''speculative'' then Some 2
      else None)"

definition max_risk_allowed :: "string \<Rightarrow> string \<Rightarrow> real option" where
  "max_risk_allowed ptype conviction =
     (if ptype = ''core'' \<and> conviction = ''HIGH'' then Some 3
      else if ptype = ''core'' then Some 2
      else if ptype = ''speculative'' then Some 2
      else None)"

text \<open>The two worked inputs used below: the task's own example and a stock position.\<close>

definition nvda_call_vertical :: sizing_input where
  "nvda_call_vertical =
     \<lparr> portfolio_total_value = 100000, position_type = ''core'', conviction_level = ''HIGH'',
       trade_structure = DebitSpread, capital_per_contract = 1200, max_loss_per_spread = 1200,
       current_position_correlation = None, existing_exposure_pct = None \<rparr>"

definition stock_round_lot :: sizing_input where
  "stock_round_lot =
     \<lparr> portfolio_total_value = 100000, position_type = ''core'', conviction_level = ''HIGH'',
       trade_structure = StockPosition, capital_per_contract = 30, max_loss_per_spread = 12,
       current_position_correlation = None, existing_exposure_pct = None \<rparr>"

definition stock_wide_stop :: sizing_input where
  "stock_wide_stop = stock_round_lot \<lparr> max_loss_per_spread := 20 \<rparr>"

text \<open>The inputs of the task's "Speculative Position" example, a short strangle.\<close>

definition amd_short_strangle :: sizing_input where
  "amd_short_strangle =
     \<lparr> portfolio_total_value = 100000, position_type = ''speculative'',
       conviction_level = ''MODERATE'', trade_structure = CreditSpread,
       capital_per_contract = 450, max_loss_per_spread = 2500,
       current_position_correlation = None, existing_exposure_pct = None \<rparr>"

subsection \<open>Check Liquidity\<close>

text \<open>
  The market data of one option contract (Step 1).  Sizes, volume and open interest
  are counts of contracts; \<open>last_trade_minutes\<close> is the age of the last trade.
\<close>

record option_quote =
  bid_price :: real
  ask_price :: real
  bid_size :: real
  ask_size :: real
  volume_today :: real
  open_interest :: real
  last_trade_minutes :: real
  strike :: real
  underlying_price :: real

record stock_quote =
  stock_avg_daily_volume :: real
  stock_bid :: real
  stock_ask :: real

text \<open>Step 2.  With no positive mid price the percentage is undefined.\<close>

definition spread_dollars :: "option_quote \<Rightarrow> real" where
  "spread_dollars q = ask_price q - bid_price q"

definition mid_price :: "option_quote \<Rightarrow> real" where
  "mid_price q = (bid_price q + ask_price q) / 2"

definition spread_pct :: "option_quote \<Rightarrow> real option" where
  "spread_pct q =
     (if mid_price q > 0 then Some (spread_dollars q / mid_price q * 100) else None)"

datatype spread_tier = EXCELLENT | ACCEPTABLE | POOR | UNACCEPTABLE

text \<open>Step 3, "Spread Quality Tiers".\<close>

definition tier_of :: "real \<Rightarrow> spread_tier" where
  "tier_of s =
     (if s \<le> 0.2 then EXCELLENT
      else if s \<le> 0.5 then ACCEPTABLE
      else if s \<le> 1.0 then POOR
      else UNACCEPTABLE)"

datatype liquidity_rejection =
    NoValidMarket
  | SpreadTooWide
  | SpreadUnacceptable
  | VolumeBelowMinimum
  | OpenInterestInsufficient
  | OpenInterestBelowFloor
  | NoRecentTrading
  | DeepOTMPoorLiquidity
  | StockTooIlliquid
  | StockSpreadTooWide
  | ZeroBidOrAsk
  | ScoreBelowForty

datatype liquidity_warning =
    SpreadPoor
  | VolumeLow
  | OpenInterestLow
  | InsufficientDepth
  | StalePricing
  | StrikeFarFromATM
  | StockLowVolume
  | StockWideSpread

text \<open>
  Step 3: the primary rule rejects above 0.5 percent of mid, and the tier chain rejects
  again in its last branch.  The POOR tier is the source's "warning".
\<close>

definition step3_rejections :: "real \<Rightarrow> liquidity_rejection list" where
  "step3_rejections s =
     (if s > 0.5 then [SpreadTooWide] else [])
     @ (if tier_of s = UNACCEPTABLE then [SpreadUnacceptable] else [])"

text \<open>Steps 4 and 5, with the absolute floors that Step 11 lists beside them.\<close>

definition min_volume_threshold :: "real \<Rightarrow> real" where
  "min_volume_threshold position_size = max 100 (position_size * 20)"

definition step4_rejections :: "option_quote \<Rightarrow> real \<Rightarrow> liquidity_rejection list" where
  "step4_rejections q position_size =
     (if volume_today q < min_volume_threshold position_size then [VolumeBelowMinimum] else [])"

definition step5_rejections :: "option_quote \<Rightarrow> real \<Rightarrow> liquidity_rejection list" where
  "step5_rejections q position_size =
     (if open_interest q < position_size * 50 then [OpenInterestInsufficient] else [])
     @ (if open_interest q < 500 then [OpenInterestBelowFloor] else [])"

text \<open>Step 7: stale above two hours.\<close>

definition step7_rejections :: "option_quote \<Rightarrow> liquidity_rejection list" where
  "step7_rejections q = (if last_trade_minutes q > 120 then [NoRecentTrading] else [])"

text \<open>Step 8: a strike more than 20 percent from the money, with a spread above 1.0.\<close>

definition distance_from_atm :: "option_quote \<Rightarrow> real" where
  "distance_from_atm q = \<bar>strike q - underlying_price q\<bar> / underlying_price q * 100"

definition step8_rejections :: "option_quote \<Rightarrow> real \<Rightarrow> liquidity_rejection list" where
  "step8_rejections q s =
     (if distance_from_atm q > 20 \<and> s > 1.0 then [DeepOTMPoorLiquidity] else [])"

text \<open>Step 9, run only when a stock check is asked for.\<close>

definition stock_spread_pct :: "stock_quote \<Rightarrow> real" where
  "stock_spread_pct sq = (stock_ask sq - stock_bid sq) / ((stock_bid sq + stock_ask sq) / 2) * 100"

definition step9_rejections :: "stock_quote option \<Rightarrow> liquidity_rejection list" where
  "step9_rejections stock_check =
     (case stock_check of
        None \<Rightarrow> []
      | Some sq \<Rightarrow>
          (if stock_avg_daily_volume sq < 200000 then [StockTooIlliquid] else [])
          @ (if stock_spread_pct sq > 0.5 then [StockSpreadTooWide] else []))"

text \<open>
  Step 10: five components of up to 20 points.  "Size" in the depth component is the
  smaller side of the market, as Step 6 tests both sides.  A contract with no valid
  market gets no spread points.
\<close>

definition spread_points :: "real option \<Rightarrow> nat" where
  "spread_points sp =
     (case sp of
        None \<Rightarrow> 0
      | Some s \<Rightarrow> if s \<le> 0.2 then 20 else if s \<le> 0.5 then 15 else if s \<le> 1.0 then 10 else 0)"

definition volume_points :: "real \<Rightarrow> nat" where
  "volume_points v =
     (if v \<ge> 5000 then 20 else if v \<ge> 1000 then 15 else if v \<ge> 500 then 10
      else if v \<ge> 100 then 5 else 0)"

definition open_interest_points :: "real \<Rightarrow> nat" where
  "open_interest_points oi =
     (if oi \<ge> 10000 then 20 else if oi \<ge> 5000 then 15 else if oi \<ge> 1000 then 10
      else if oi \<ge> 500 then 5 else 0)"

definition depth_points :: "option_quote \<Rightarrow> real \<Rightarrow> nat" where
  "depth_points q position_size =
     (let size = min (bid_size q) (ask_size q)
      in if size \<ge> 2 * position_size then 20
         else if size \<ge> position_size then 15
         else if size \<ge> 0.5 * position_size then 10
         else 0)"

definition recency_points :: "real \<Rightarrow> nat" where
  "recency_points minutes =
     (if minutes < 5 then 20 else if minutes < 30 then 15 else if minutes < 120 then 10 else 0)"

definition liquidity_score :: "option_quote \<Rightarrow> real \<Rightarrow> nat" where
  "liquidity_score q position_size =
     spread_points (spread_pct q) + volume_points (volume_today q)
       + open_interest_points (open_interest q) + depth_points q position_size
       + recency_points (last_trade_minutes q)"

datatype liquidity_rating = RATING_EXCELLENT | RATING_GOOD | RATING_MARGINAL | RATING_POOR

definition rating_of :: "nat \<Rightarrow> liquidity_rating" where
  "rating_of score =
     (if score \<ge> 80 then RATING_EXCELLENT
      else if score \<ge> 60 then RATING_GOOD
      else if score \<ge> 40 then RATING_MARGINAL
      else RATING_POOR)"

text \<open>The warnings of Steps 3 to 9 (none of them rejects).\<close>

definition liquidity_warnings ::
  "option_quote \<Rightarrow> real \<Rightarrow> stock_quote option \<Rightarrow> liquidity_warning list" where
  "liquidity_warnings q position_size stock_check =
     (case spread_pct q of
        None \<Rightarrow> []
      | Some s \<Rightarrow> if tier_of s = POOR then [SpreadPoor] else [])
     @ (if volume_today q < 500 then [VolumeLow] else [])
     @ (if open_interest q < 1000 then [OpenInterestLow] else [])
     @ (if bid_size q < position_size * 0.5 \<or> ask_size q < position_size * 0.5
        then [InsufficientDepth] else [])
     @ (if last_trade_minutes q > 30 then [StalePricing] else [])
     @ (if distance_from_atm q > 20 then [StrikeFarFromATM] else [])
     @ (case stock_check of
          None \<Rightarrow> []
        | Some sq \<Rightarrow>
            (if stock_avg_daily_volume sq < 500000 then [StockLowVolume] else [])
            @ (if stock_spread_pct sq > 0.1 then [StockWideSpread] else []))"

text \<open>
  Every REJECT of Steps 2 to 10, and the two criteria that only the list "Automatic
  Rejection Criteria" names (a zero bid or ask, a score below 40; the latter is Step
  10's RECOMMEND_REJECT).
\<close>

definition liquidity_rejections ::
  "option_quote \<Rightarrow> real \<Rightarrow> stock_quote option \<Rightarrow> liquidity_rejection list" where
  "liquidity_rejections q position_size stock_check =
     (case spread_pct q of
        None \<Rightarrow> [NoValidMarket]
      | Some s \<Rightarrow> step3_rejections s)
     @ step4_rejections q position_size
     @ step5_rejections q position_size
     @ step7_rejections q
     @ (case spread_pct q of None \<Rightarrow> [] | Some s \<Rightarrow> step8_rejections q s)
     @ step9_rejections stock_check
     @ (if rating_of (liquidity_score q position_size) = RATING_POOR then [ScoreBelowForty] else [])
     @ (if bid_price q = 0 \<or> ask_price q = 0 then [ZeroBidOrAsk] else [])"

record liquidity_result =
  spread_pct_of_mid :: "real option"
  tier :: "spread_tier option"
  score :: nat
  rating :: liquidity_rating
  rejections :: "liquidity_rejection list"
  warnings :: "liquidity_warning list"
  approved :: bool

definition check_liquidity ::
  "option_quote \<Rightarrow> real \<Rightarrow> stock_quote option \<Rightarrow> liquidity_result" where
  "check_liquidity q position_size stock_check =
     \<lparr> spread_pct_of_mid = spread_pct q,
       tier = map_option tier_of (spread_pct q),
       score = liquidity_score q position_size,
       rating = rating_of (liquidity_score q position_size),
       rejections = liquidity_rejections q position_size stock_check,
       warnings = liquidity_warnings q position_size stock_check,
       approved = (liquidity_rejections q position_size stock_check = []) \<rparr>"

text \<open>
  A contract is approved when no rejection was triggered, with or without warnings.
  All contracts of a structure are checked; the structure passes when each does.
\<close>

definition all_approved :: "option_quote list \<Rightarrow> real \<Rightarrow> stock_quote option \<Rightarrow> bool" where
  "all_approved legs position_size stock_check =
     list_all (\<lambda>q. approved (check_liquidity q position_size stock_check)) legs"

text \<open>The two contracts of the task's PASS example (NVDA at 502.50, two contracts).\<close>

definition nvda_500_call :: option_quote where
  "nvda_500_call =
     \<lparr> bid_price = 28.40, ask_price = 28.60, bid_size = 150, ask_size = 200,
       volume_today = 8524, open_interest = 15234, last_trade_minutes = 2,
       strike = 500, underlying_price = 502.50 \<rparr>"

definition nvda_520_call :: option_quote where
  "nvda_520_call =
     \<lparr> bid_price = 16.40, ask_price = 16.60, bid_size = 120, ask_size = 180,
       volume_today = 6892, open_interest = 12456, last_trade_minutes = 1,
       strike = 520, underlying_price = 502.50 \<rparr>"

subsection \<open>Fit Profit Mechanism\<close>

datatype trend_state =
  STRONG_UPTREND | UPTREND | WEAK_UPTREND | STRONG_DOWNTREND | DOWNTREND | RANGE_BOUND

datatype vol_premium_state = OVERPRICED | UNDERPRICED | FAIR

datatype momentum_state =
  STRONG_MOMENTUM | MODERATE_MOMENTUM | NEUTRAL_MOMENTUM | NEGATIVE_MOMENTUM

datatype mechanism = EARNINGS_VOLATILITY | VRP | MOMENTUM_DRIFT | MEAN_REVERSION | NO_EDGE

text \<open>
  The inputs of the task.  \<open>days_to_earnings\<close> and \<open>iv_rank\<close> are optional, as is the
  correlation with an existing position.  \<open>rolling_mean\<close> and \<open>sigma\<close> are the mean
  and standard deviation that Priority 4 measures the price against.  The last four
  fields are what the override conditions read.
\<close>

record ticker_setup =
  price :: real
  ma20 :: real
  ma50 :: real
  ma200 :: real
  iv_rank :: "real option"
  realized_vol :: real
  implied_vol :: real
  stock_rs_vs_spy :: real
  setup_disposition :: disposition
  days_to_earnings :: "int option"
  rolling_mean :: real
  sigma :: real
  liquidity_sufficient :: bool
  ticker_correlation :: "real option"
  conflicts_with_disposition :: "mechanism \<Rightarrow> bool"
  technical_quality_score :: real

text \<open>Step 2: trend, volatility premium and momentum.\<close>

definition classify_trend :: "ticker_setup \<Rightarrow> trend_state" where
  "classify_trend t =
     (if price t > ma20 t \<and> ma20 t > ma50 t \<and> ma50 t > ma200 t then STRONG_UPTREND
      else if price t > ma50 t \<and> ma50 t > ma200 t then UPTREND
      else if price t > ma200 t then WEAK_UPTREND
      else if price t < ma20 t \<and> ma20 t < ma50 t \<and> ma50 t < ma200 t then STRONG_DOWNTREND
      else if price t < ma50 t \<and> ma50 t < ma200 t then DOWNTREND
      else RANGE_BOUND)"

text \<open>A comparison with an \<open>iv_rank\<close> that was not provided does not hold.\<close>

definition iv_rank_above :: "ticker_setup \<Rightarrow> real \<Rightarrow> bool" where
  "iv_rank_above t x = (case iv_rank t of None \<Rightarrow> False | Some r \<Rightarrow> r > x)"

definition iv_rank_below :: "ticker_setup \<Rightarrow> real \<Rightarrow> bool" where
  "iv_rank_below t x = (case iv_rank t of None \<Rightarrow> False | Some r \<Rightarrow> r < x)"

definition classify_vol_premium :: "ticker_setup \<Rightarrow> vol_premium_state" where
  "classify_vol_premium t =
     (if iv_rank_above t 50 \<and> realized_vol t < implied_vol t * 0.8 then OVERPRICED
      else if iv_rank_below t 30 \<and> realized_vol t > implied_vol t * 1.2 then UNDERPRICED
      else FAIR)"

definition classify_momentum :: "ticker_setup \<Rightarrow> momentum_state" where
  "classify_momentum t =
     (if stock_rs_vs_spy t > 10 then STRONG_MOMENTUM
      else if stock_rs_vs_spy t > 5 then MODERATE_MOMENTUM
      else if stock_rs_vs_spy t > -5 then NEUTRAL_MOMENTUM
      else NEGATIVE_MOMENTUM)"

definition earnings_within :: "ticker_setup \<Rightarrow> int \<Rightarrow> bool" where
  "earnings_within t n = (case days_to_earnings t of None \<Rightarrow> False | Some d \<Rightarrow> d \<le> n)"

text \<open>Step 3: the decision tree, in its priority order.\<close>

definition match_mechanism :: "ticker_setup \<Rightarrow> mechanism" where
  "match_mechanism t =
     (if earnings_within t 30 \<and> iv_rank_below t 40 then EARNINGS_VOLATILITY
      else if classify_vol_premium t = OVERPRICED \<and> iv_rank_above t 60
              \<and> classify_trend t \<in> {RANGE_BOUND, WEAK_UPTREND} then VRP
      else if classify_momentum t \<in> {STRONG_MOMENTUM, MODERATE_MOMENTUM}
              \<and> classify_trend t \<in> {STRONG_UPTREND, UPTREND}
              \<and> setup_disposition t \<in> {STRONG_BULL, BULL} then MOMENTUM_DRIFT
      else if classify_trend t = RANGE_BOUND
              \<and> \<bar>price t - rolling_mean t\<bar> > 2 * sigma t then MEAN_REVERSION
      else NO_EDGE)"

text \<open>
  Decision Rules, "Override Conditions": the five conditions that override the
  selected mechanism to NO_EDGE.  What makes a mechanism conflict with the market
  disposition is not spelled out in the task; it is an input here.
\<close>

definition override_to_no_edge :: "ticker_setup \<Rightarrow> mechanism \<Rightarrow> bool" where
  "override_to_no_edge t m \<longleftrightarrow>
     earnings_within t 7
     \<or> \<not> liquidity_sufficient t
     \<or> (case ticker_correlation t of None \<Rightarrow> False | Some c \<Rightarrow> c > 0.8)
     \<or> conflicts_with_disposition t m
     \<or> technical_quality_score t < 5"

definition fit_mechanism :: "ticker_setup \<Rightarrow> mechanism" where
  "fit_mechanism t =
     (if override_to_no_edge t (match_mechanism t) then NO_EDGE else match_mechanism t)"

text \<open>An earnings play five days before the announcement, with cheap options.\<close>

definition earnings_in_five_days :: ticker_setup where
  "earnings_in_five_days =
     \<lparr> price = 100, ma20 = 98, ma50 = 95, ma200 = 90, iv_rank = Some 30,
       realized_vol = 30, implied_vol = 30, stock_rs_vs_spy = 12,
       setup_disposition = BULL, days_to_earnings = Some 5, rolling_mean = 99, sigma = 2,
       liquidity_sufficient = True, ticker_correlation = None,
       conflicts_with_disposition = (\<lambda>m. False), technical_quality_score = 9 \<rparr>"

subsection \<open>Calculate Beta Weighting\<close>

text \<open>
  One row of the portfolio CSV.  The delta and the beta may be missing; the rules for
  invalid data say what happens then.
\<close>

record csv_position =
  ticker :: string
  position_delta :: "real option"
  stock_price :: real
  beta :: "real option"

datatype beta_error = InvalidPrice string | InvalidSpyPrice

datatype directional_bias = LONG | SHORT | NEUTRAL_BIAS

record beta_weighting =
  total_beta_weighted_delta :: real
  dollar_exposure :: real
  bias :: directional_bias
  skipped :: "string list"

text \<open>Decision rule 1: a missing beta defaults to 1.0, the market beta.\<close>

definition beta_or_default :: "csv_position \<Rightarrow> real" where
  "beta_or_default p = (case beta p of None \<Rightarrow> 1.0 | Some b \<Rightarrow> b)"

text \<open>Step 2: the formula of one position.\<close>

definition beta_weighted_delta :: "real \<Rightarrow> csv_position \<Rightarrow> real \<Rightarrow> real" where
  "beta_weighted_delta spy_price p delta =
     (delta * beta_or_default p * stock_price p) / spy_price"

text \<open>
  Steps 1 to 3 over the rows, in order: a zero or negative price rejects with an
  error; a row without a delta is skipped with a warning (its ticker is recorded);
  every other row adds its beta-weighted delta to the total.
\<close>

fun sum_positions ::
  "real \<Rightarrow> csv_position list \<Rightarrow> beta_error + (real \<times> string list)" where
  "sum_positions spy_price [] = Inr (0, [])"
| "sum_positions spy_price (p # ps) =
     (if stock_price p \<le> 0 then Inl (InvalidPrice (ticker p))
      else case sum_positions spy_price ps of
             Inl e \<Rightarrow> Inl e
           | Inr (tot, skips) \<Rightarrow>
               (case position_delta p of
                  None \<Rightarrow> Inr (tot, ticker p # skips)
                | Some delta \<Rightarrow> Inr (beta_weighted_delta spy_price p delta + tot, skips)))"

text \<open>Step 5.\<close>

definition bias_of :: "real \<Rightarrow> directional_bias" where
  "bias_of tot =
     (if tot > 10 then LONG else if tot < -10 then SHORT else NEUTRAL_BIAS)"

text \<open>Decision rule 2 validates the SPY price against the range 300 to 600.\<close>

definition calc_beta_weighting ::
  "real \<Rightarrow> csv_position list \<Rightarrow> beta_error + beta_weighting" where
  "calc_beta_weighting spy_price portfolio =
     (if spy_price < 300 \<or> spy_price > 600 then Inl InvalidSpyPrice
      else case sum_positions spy_price portfolio of
             Inl e \<Rightarrow> Inl e
           | Inr (tot, skips) \<Rightarrow>
               Inr \<lparr> total_beta_weighted_delta = tot,
                     dollar_exposure = tot * spy_price,
                     bias = bias_of tot,
                     skipped = skips \<rparr>)"

text \<open>The contribution of one row to the total, as the rules above give it.\<close>

definition contribution :: "real \<Rightarrow> csv_position \<Rightarrow> real" where
  "contribution spy_price p =
     (case position_delta p of
        None \<Rightarrow> 0
      | Some delta \<Rightarrow> beta_weighted_delta spy_price p delta)"

text \<open>Two rows: one without a beta, one without a delta.\<close>

definition aapl_no_beta :: csv_position where
  "aapl_no_beta =
     \<lparr> ticker = ''AAPL'', position_delta = Some 50, stock_price = 180, beta = None \<rparr>"

definition msft_no_delta :: csv_position where
  "msft_no_delta =
     \<lparr> ticker = ''MSFT'', position_delta = None, stock_price = 350, beta = Some 1.10 \<rparr>"

subsection \<open>Pre-Trade Checklist\<close>

text \<open>
  The portfolio state the checklist reads: the dollar exposure held per ticker (one
  entry per ticker) and the dollar risk of all open positions.
\<close>

record portfolio_ledger =
  holdings :: "(string \<times> real) list"
  open_risk :: real

text \<open>
  The inputs of the checklist.  \<open>days_until_earnings\<close> is \<open>earnings_date - today\<close>;
  \<open>economic_calendar\<close> lists the days until each event and its type;
  \<open>days_to_expiration\<close> has one entry per contract of the structure.  The
  correlation of two tickers, which the source gets from \<open>calculate_correlation\<close>, is
  an input.
\<close>

record gate_input =
  trade_ticker :: string
  trade_position_type :: string
  conviction :: string
  position_size :: real
  cost_per_contract :: real
  max_loss_per_contract :: real
  portfolio_value :: real
  liquidity_status :: string
  liquidity_spread_pct :: real
  days_until_earnings :: "int option"
  economic_calendar :: "(int \<times> string) list"
  calculate_correlation :: "string \<Rightarrow> string \<Rightarrow> real"
  current_disposition :: disposition
  trade_direction :: string
  sector_relative_strength :: real
  entry_price :: real
  support_level :: real
  resistance_level :: real
  price_near_support :: bool
  spot_price :: real
  sma20 :: real
  sma50 :: real
  sma200 :: real
  potential_profit :: real
  potential_loss :: real
  market_hours :: string
  requires_margin :: bool
  margin_available :: real
  margin_required :: real
  account_cash :: real
  capital_required :: real
  days_to_expiration :: "int list"
  override_reason :: "string option"

text \<open>
  A section either passes, with the warnings and flags it raised, or rejects with its
  reason and halts the checklist.
\<close>

datatype section_result = Passed "string list" | Rejected string

definition is_rejected :: "section_result \<Rightarrow> bool" where
  "is_rejected r = (case r of Rejected _ \<Rightarrow> True | Passed _ \<Rightarrow> False)"

text \<open>Section 1: liquidity.\<close>

definition section1 :: "gate_input \<Rightarrow> section_result" where
  "section1 inp =
     (if liquidity_status inp \<noteq> ''APPROVED'' then Rejected ''Failed liquidity requirements''
      else if liquidity_spread_pct inp > 0.5 then Rejected ''Bid-ask spread too wide''
      else Passed [])"

text \<open>Section 2: earnings and high-impact events.\<close>

definition high_impact_events :: "string list" where
  "high_impact_events = [''FOMC'', ''CPI'', ''NFP'', ''GDP'']"

definition event_flags :: "gate_input \<Rightarrow> string list" where
  "event_flags inp =
     map (\<lambda>(d, ty). ''Consider delaying entry until after event'')
       (filter (\<lambda>(d, ty). d \<le> 3 \<and> ty \<in> set high_impact_events) (economic_calendar inp))"

definition section2 :: "gate_input \<Rightarrow> section_result" where
  "section2 inp =
     (case days_until_earnings inp of
        None \<Rightarrow> Passed (event_flags inp)
      | Some d \<Rightarrow>
          if d \<le> 7 then Rejected ''Earnings too close''
          else Passed ((if d \<le> 14 \<and> trade_position_type inp \<noteq> ''earnings_volatility''
                        then [''Caution - earnings approaching''] else [])
                       @ event_flags inp))"

text \<open>
  Section 3.  The new position's dollar value is \<open>position_size \<times> cost_per_contract\<close>,
  as Section 4 computes it.
\<close>

definition position_dollars :: "gate_input \<Rightarrow> real" where
  "position_dollars inp = position_size inp * cost_per_contract inp"

text \<open>
  Modelled from the spec: the helper \<open>calculate_exposure_percentage\<close>, which the
  checklist calls and the repository does not define.  The single-ticker exposure is
  the dollar exposure already held in the ticker plus the new position, as a percentage
  of the portfolio value.
\<close>

definition combined_exposure_pct :: "gate_input \<Rightarrow> real \<Rightarrow> real" where
  "combined_exposure_pct inp existing =
     (existing + position_dollars inp) / portfolio_value inp * 100"

text \<open>
  Modelled from the spec: the correlated group of a ticker, which the repository does
  not define.  It is made of the holdings in the ticker itself and of those whose
  correlation with it is above 0.8; its exposure is the sum of theirs.
\<close>

definition correlated_exposure :: "(string \<Rightarrow> string \<Rightarrow> real) \<Rightarrow> (string \<times> real) list \<Rightarrow> string \<Rightarrow> real" where
  "correlated_exposure corr hs t =
     sum_list (map snd (filter (\<lambda>(u, e). u = t \<or> corr t u > 0.8) hs))"

text \<open>
  Modelled from the spec: the helper \<open>sum_correlated_positions\<close>, which the checklist
  calls and the repository does not define.  It is the new position plus the exposure
  of its ticker's correlated group, as a percentage of the portfolio value.
\<close>

definition combined_correlated_exposure_pct :: "gate_input \<Rightarrow> portfolio_ledger \<Rightarrow> real" where
  "combined_correlated_exposure_pct inp ledger =
     (position_dollars inp
        + correlated_exposure (calculate_correlation inp) (holdings ledger) (trade_ticker inp))
       / portfolio_value inp * 100"

text \<open>The loop of Section 3 over the existing positions; the first REJECT ends it.\<close>

fun section3_loop ::
  "gate_input \<Rightarrow> portfolio_ledger \<Rightarrow> (string \<times> real) list \<Rightarrow> section_result" where
  "section3_loop inp ledger [] = Passed []"
| "section3_loop inp ledger ((u, e) # rest) =
     (if u = trade_ticker inp \<and> combined_exposure_pct inp e > 15
      then Rejected ''Single ticker exposure exceeds 15%''
      else if calculate_correlation inp (trade_ticker inp) u > 0.8
      then (if combined_correlated_exposure_pct inp ledger > 25
            then Rejected ''Correlated exposure exceeds 25%''
            else case section3_loop inp ledger rest of
                   Rejected reason \<Rightarrow> Rejected reason
                 | Passed ws \<Rightarrow> Passed ((''High correlation with '' @ u) # ws))
      else section3_loop inp ledger rest)"

definition section3 :: "gate_input \<Rightarrow> portfolio_ledger \<Rightarrow> section_result" where
  "section3 inp ledger = section3_loop inp ledger (holdings ledger)"

text \<open>
  Section 4.  A comparison with a limit that was not assigned (a position type the
  chains do not list) does not hold.
\<close>

definition position_pct :: "gate_input \<Rightarrow> real" where
  "position_pct inp = position_dollars inp / portfolio_value inp * 100"

definition max_loss :: "gate_input \<Rightarrow> real" where
  "max_loss inp = position_size inp * max_loss_per_contract inp"

definition max_loss_pct :: "gate_input \<Rightarrow> real" where
  "max_loss_pct inp = max_loss inp / portfolio_value inp * 100"

definition exceeds :: "real \<Rightarrow> real option \<Rightarrow> bool" where
  "exceeds x limit = (case limit of None \<Rightarrow> False | Some m \<Rightarrow> x > m)"

definition section4 :: "gate_input \<Rightarrow> section_result" where
  "section4 inp =
     (if exceeds (position_pct inp) (max_pct (trade_position_type inp))
      then Rejected ''Position size exceeds maximum''
      else if exceeds (max_loss_pct inp)
                (max_risk_allowed (trade_position_type inp) (conviction inp))
      then Rejected ''Risk exceeds allowed maximum''
      else if max_loss_pct inp > 5 then Rejected ''Risk exceeds absolute maximum (5%)''
      else Passed [])"

text \<open>Section 5 only warns.\<close>

definition counter_to_disposition :: "gate_input \<Rightarrow> bool" where
  "counter_to_disposition inp \<longleftrightarrow>
     (current_disposition inp \<in> {STRONG_BULL, BULL} \<and> trade_direction inp = ''bearish'')
     \<or> (current_disposition inp \<in> {STRONG_BEAR, BEAR} \<and> trade_direction inp = ''bullish'')"

definition section5 :: "gate_input \<Rightarrow> section_result" where
  "section5 inp =
     Passed
       ((if current_disposition inp \<in> {STRONG_BULL, BULL} \<and> trade_direction inp = ''bearish''
         then [''Bearish trade in bull market'']
         else if current_disposition inp \<in> {STRONG_BEAR, BEAR}
                 \<and> trade_direction inp = ''bullish''
         then [''Bullish trade in bear market'']
         else [])
        @ (if sector_relative_strength inp < -5 \<and> trade_direction inp = ''bullish''
           then [''Bullish trade in weak sector''] else []))"

text \<open>Section 6: warnings on the levels, and one REJECT on the price action.\<close>

definition clear_downtrend :: "gate_input \<Rightarrow> bool" where
  "clear_downtrend inp \<longleftrightarrow>
     spot_price inp < sma20 inp \<and> sma20 inp < sma50 inp \<and> sma50 inp < sma200 inp"

definition level_warnings :: "gate_input \<Rightarrow> string list" where
  "level_warnings inp =
     (if trade_direction inp = ''bullish'' then
        (if (entry_price inp - support_level inp) / entry_price inp * 100 > 5
         then [''Far from support''] else [])
        @ (if (resistance_level inp - entry_price inp) / entry_price inp * 100 < 2
           then [''Near resistance''] else [])
      else if trade_direction inp = ''bearish'' then
        (if price_near_support inp then [''Price near support - bounce risk''] else [])
      else [])"

definition section6 :: "gate_input \<Rightarrow> section_result" where
  "section6 inp =
     (if clear_downtrend inp \<and> trade_direction inp = ''bullish''
      then Rejected ''Bullish trade in clear downtrend''
      else Passed (level_warnings inp))"

text \<open>
  Section 7.  The source divides the profit by the loss without a guard; nothing
  below depends on the value of the ratio at a zero loss.
\<close>

definition risk_reward_ratio :: "gate_input \<Rightarrow> real" where
  "risk_reward_ratio inp = potential_profit inp / potential_loss inp"

definition section7 :: "gate_input \<Rightarrow> section_result" where
  "section7 inp =
     (if risk_reward_ratio inp < 0.5 then Rejected ''Risk/Reward unacceptable (<0.5:1)''
      else Passed (if risk_reward_ratio inp < 1.0 then [''Risk/Reward below 1:1''] else []))"

text \<open>Section 8: the risk of all open positions plus the new position's maximum loss.\<close>

definition total_risk_pct :: "gate_input \<Rightarrow> portfolio_ledger \<Rightarrow> real" where
  "total_risk_pct inp ledger = (open_risk ledger + max_loss inp) / portfolio_value inp * 100"

definition section8 :: "gate_input \<Rightarrow> portfolio_ledger \<Rightarrow> section_result" where
  "section8 inp ledger =
     (if total_risk_pct inp ledger > 15 then Rejected ''Total portfolio risk exceeds 15%''
      else Passed (if total_risk_pct inp ledger > 10 then [''Portfolio risk elevated''] else []))"

text \<open>Section 9: margin, cash, and the loop over the contracts' expirations.\<close>

fun expiration_loop :: "int list \<Rightarrow> section_result" where
  "expiration_loop [] = Passed []"
| "expiration_loop (d # ds) =
     (if d < 3 then Rejected ''Contract too close to expiration''
      else case expiration_loop ds of
             Rejected reason \<Rightarrow> Rejected reason
           | Passed ws \<Rightarrow> Passed ((if d < 7 then [''Contract expiring soon''] else []) @ ws))"

definition section9 :: "gate_input \<Rightarrow> section_result" where
  "section9 inp =
     (if requires_margin inp \<and> margin_available inp < margin_required inp
      then Rejected ''Insufficient margin''
      else if account_cash inp < capital_required inp
      then Rejected ''Insufficient cash for trade''
      else case expiration_loop (days_to_expiration inp) of
             Rejected reason \<Rightarrow> Rejected reason
           | Passed ws \<Rightarrow>
               Passed ((if market_hours inp = ''closed''
                        then [''Market closed - trade will be placed at open''] else []) @ ws))"

text \<open>The nine sections by number.\<close>

definition section_result_of :: "gate_input \<Rightarrow> portfolio_ledger \<Rightarrow> nat \<Rightarrow> section_result" where
  "section_result_of inp ledger k =
     (if k = 1 then section1 inp
      else if k = 2 then section2 inp
      else if k = 3 then section3 inp ledger
      else if k = 4 then section4 inp
      else if k = 5 then section5 inp
      else if k = 6 then section6 inp
      else if k = 7 then section7 inp
      else if k = 8 then section8 inp ledger
      else section9 inp)"

text \<open>
  The sections run in the order given; a REJECT halts, and the sections after it are
  not run.  The result is the list of the sections that ran, the warnings they raised
  and the reason of the halt, if any.
\<close>

fun run_sections ::
  "(nat \<Rightarrow> section_result) \<Rightarrow> nat list \<Rightarrow> nat list \<times> string list \<times> string option" where
  "run_sections f [] = ([], [], None)"
| "run_sections f (k # ks) =
     (case f k of
        Rejected reason \<Rightarrow> ([k], [], Some reason)
      | Passed ws \<Rightarrow>
          (case run_sections f ks of (seen, later, halt) \<Rightarrow> (k # seen, ws @ later, halt)))"

text \<open>
  Section 10, reached when no section halted: the sixteen items of the final
  checklist, each read on the inputs.  "Justified" is a given override reason;
  "critical pending news" is a high-impact event within 3 days; the technical setup
  "supports" the direction unless it is the contradiction Section 6 rejects; a position
  size is "within limits" when it exceeds no limit of Section 4.
\<close>

definition ticker_exposure :: "(string \<times> real) list \<Rightarrow> string \<Rightarrow> real" where
  "ticker_exposure hs t = (case map_of hs t of None \<Rightarrow> 0 | Some e \<Rightarrow> e)"

definition final_checklist :: "gate_input \<Rightarrow> portfolio_ledger \<Rightarrow> bool list" where
  "final_checklist inp ledger =
     [ liquidity_status inp = ''APPROVED'',
       liquidity_spread_pct inp \<le> 0.5,
       (case days_until_earnings inp of
          None \<Rightarrow> True
        | Some d \<Rightarrow> d > 7 \<or> trade_position_type inp = ''earnings_volatility''),
       list_all (\<lambda>(u, e). calculate_correlation inp (trade_ticker inp) u < 0.8) (holdings ledger),
       combined_exposure_pct inp (ticker_exposure (holdings ledger) (trade_ticker inp)) \<le> 15,
       combined_correlated_exposure_pct inp ledger \<le> 25,
       \<not> exceeds (position_pct inp) (max_pct (trade_position_type inp)),
       max_loss_pct inp
         \<le> (if trade_position_type inp = ''core'' \<and> conviction inp = ''HIGH'' then 3 else 2),
       \<not> counter_to_disposition inp \<or> override_reason inp \<noteq> None,
       \<not> (clear_downtrend inp \<and> trade_direction inp = ''bullish''),
       risk_reward_ratio inp \<ge> 1.0,
       total_risk_pct inp ledger \<le> 15,
       account_cash inp \<ge> capital_required inp,
       \<not> (requires_margin inp \<and> margin_available inp < margin_required inp),
       list_all (\<lambda>d. d \<ge> 7) (days_to_expiration inp),
       event_flags inp = [] ]"

record gate_result =
  sections_run :: "nat list"
  gate_warnings :: "string list"
  halt_reason :: "string option"
  failed_items :: "nat list"
  status :: string

text \<open>The numbers (from 1) of the checklist items that are not ticked.\<close>

definition unticked :: "bool list \<Rightarrow> nat list" where
  "unticked items = map (\<lambda>i. Suc i) (filter (\<lambda>i. \<not> items ! i) [0..<length items])"

definition pre_trade_checklist :: "gate_input \<Rightarrow> portfolio_ledger \<Rightarrow> gate_result" where
  "pre_trade_checklist inp ledger =
     (case run_sections (section_result_of inp ledger) [1..<10] of
        (seen, ws, Some reason) \<Rightarrow>
          \<lparr> sections_run = seen, gate_warnings = ws, halt_reason = Some reason,
            failed_items = [], status = ''REJECTED'' \<rparr>
      | (seen, ws, None) \<Rightarrow>
          \<lparr> sections_run = seen, gate_warnings = ws, halt_reason = None,
            failed_items = unticked (final_checklist inp ledger),
            status = (if list_all (\<lambda>b. b) (final_checklist inp ledger)
                      then ''APPROVED'' else ''REJECTED'') \<rparr>)"

text \<open>
  Modelled from the spec: the update of the per-ticker exposure, which the repository
  does not contain.  The new dollar value is added to the entry of its ticker, or
  becomes a new entry when the ticker is not held.
\<close>

definition add_exposure :: "string \<Rightarrow> real \<Rightarrow> (string \<times> real) list \<Rightarrow> (string \<times> real) list" where
  "add_exposure t v hs =
     (if t \<in> fst ` set hs
      then map (\<lambda>(u, e). if u = t then (u, e + v) else (u, e)) hs
      else hs @ [(t, v)])"

text \<open>
  Modelled from the spec: the commit of a trade to the ledger, which the repository
  does not contain.  It adds the new position's dollar value to the exposure of its
  ticker and its maximum loss to the open risk.
\<close>

definition commit :: "gate_input \<Rightarrow> portfolio_ledger \<Rightarrow> portfolio_ledger" where
  "commit inp ledger =
     \<lparr> holdings = add_exposure (trade_ticker inp) (position_dollars inp) (holdings ledger),
       open_risk = open_risk ledger + max_loss inp \<rparr>"

text \<open>
  Modelled from the spec: one step of the gate on the ledger.  An approved trade is
  committed; a rejected trade leaves the ledger as it is.
\<close>

definition gate_step :: "gate_input \<Rightarrow> portfolio_ledger \<Rightarrow> portfolio_ledger" where
  "gate_step inp ledger =
     (if status (pre_trade_checklist inp ledger) = ''APPROVED'' then commit inp ledger
      else ledger)"

text \<open>
  Modelled from the spec: the three exposure limits of the ledger, as percentages of
  the portfolio value.  The correlated group of a held ticker is the ticker itself and
  every holding correlated above 0.8 with it.
\<close>

definition within_limits ::
  "(string \<Rightarrow> string \<Rightarrow> real) \<Rightarrow> real \<Rightarrow> portfolio_ledger \<Rightarrow> bool" where
  "within_limits corr pv ledger \<longleftrightarrow>
     distinct (map fst (holdings ledger))
     \<and> open_risk ledger / pv * 100 \<le> 15
     \<and> list_all (\<lambda>(t, e). e / pv * 100 \<le> 15) (holdings ledger)
     \<and> list_all (\<lambda>(t, e). correlated_exposure corr (holdings ledger) t / pv * 100 \<le> 25)
         (holdings ledger)"

text \<open>
  A trade after the task's APPROVED example (two NVDA call verticals at 1,200 dollars
  on a 100,000 dollar portfolio that holds MSFT), here with a spread of 0.4 percent and
  a reward of 3,200 dollars, so that every item is ticked; and the same trade four days
  before earnings.
\<close>

definition nvda_trade :: gate_input where
  "nvda_trade =
     \<lparr> trade_ticker = ''NVDA'', trade_position_type = ''core'', conviction = ''HIGH'',
       position_size = 2, cost_per_contract = 1200, max_loss_per_contract = 1200,
       portfolio_value = 100000,
       liquidity_status = ''APPROVED'', liquidity_spread_pct = 0.4,
       days_until_earnings = Some 28, economic_calendar = [],
       calculate_correlation = (\<lambda>a b. if a = b then 1 else 0.65),
       current_disposition = STRONG_BULL, trade_direction = ''bullish'',
       sector_relative_strength = 7.1,
       entry_price = 502.50, support_level = 490, resistance_level = 520,
       price_near_support = False,
       spot_price = 502.50, sma20 = 495, sma50 = 485, sma200 = 450,
       potential_profit = 3200, potential_loss = 2400,
       market_hours = ''open'', requires_margin = False, margin_available = 0,
       margin_required = 0, account_cash = 45000, capital_required = 2400,
       days_to_expiration = [45, 45], override_reason = None \<rparr>"

definition nvda_before_earnings :: gate_input where
  "nvda_before_earnings = nvda_trade \<lparr> days_until_earnings := Some 4 \<rparr>"

definition msft_ledger :: portfolio_ledger where
  "msft_ledger = \<lparr> holdings = [(''MSFT'', 12000)], open_risk = 4200 \<rparr>"

section \<open>Theorems\<close>

subsection \<open>Market disposition\<close>

lemma market_disposition_bands:
  "market_disposition s = STRONG_BULL \<longleftrightarrow> 5 \<le> s"
  "market_disposition s = BULL \<longleftrightarrow> 2 \<le> s \<and> s \<le> 4"
  "market_disposition s = NEUTRAL \<longleftrightarrow> -1 \<le> s \<and> s \<le> 1"
  "market_disposition s = BEAR \<longleftrightarrow> -4 \<le> s \<and> s \<le> -2"
  "market_disposition s = STRONG_BEAR \<longleftrightarrow> s \<le> -5"
  by (auto simp: market_disposition_def)

lemma score_eight_strong_bull:
  "total_score \<lparr> trend_signal = 3, momentum_signal = 1, vol_signal = 0, vix_trend = 1,
       sector_signal = 2, leadership_signal = 1, econ_signal = 0 \<rparr> = 8"
  "market_disposition 8 = STRONG_BULL"
  "recommended_delta_target 8 = 60"
  by (simp_all add: total_score_def market_disposition_def recommended_delta_target_def)

text \<open>
  Claim C3.  The claim places the strongest-bull band at scores of 7 and above and the
  strongest-bear band at -7 and below, as the Score Interpretation table does.  The
  processing logic puts a score of 5 (and 6) in STRONG_BULL with target +60, where the
  table has BULL, and -5 and -6 in STRONG_BEAR, where the table has BEAR.
\<close>

theorem disposition_at_score_five:
  "market_disposition 5 = STRONG_BULL \<and> recommended_delta_target 5 = 60
   \<and> score_interpretation 5 = BULL
   \<and> market_disposition (-5) = STRONG_BEAR \<and> recommended_delta_target (-5) = -60
   \<and> score_interpretation (-5) = BEAR"
  by (simp add: market_disposition_def recommended_delta_target_def score_interpretation_def)

subsection \<open>Position sizing\<close>

lemmas sizing_defs =
  calculate_sizing_def correlation_applies_def over_ticker_limit_def base_allocation_pct_def conviction_multiplier_def max_risk_pct_def
  step5_contracts_def step6_contracts_def step7_contracts_def step8_warnings_def
  contracts_from_allocation_def contracts_from_risk_def round_down_def round_lot_def
  correlation_reduction_def

lemma nvda_call_vertical_sized:
  "calculate_sizing nvda_call_vertical =
     Inr \<lparr> initial_contracts = 2, final_contracts = 2, total_risk = 2400,
           recommendation = None, sizing_warnings = [] \<rparr>"
  by (simp add: nvda_call_vertical_def sizing_defs Let_def)

lemma stock_round_lot_sized:
  "calculate_sizing stock_round_lot =
     Inr \<lparr> initial_contracts = 300, final_contracts = 300, total_risk = 3600,
           recommendation = None, sizing_warnings = [] \<rparr>"
  by (simp add: stock_round_lot_def sizing_defs Let_def)

text \<open>What a returned result says about the run that produced it.\<close>

lemma calculate_sizing_InrE:
  assumes "calculate_sizing inp = Inr r"
  obtains base multiplier risk_pct where
    "base_allocation_pct (position_type inp) = Some base"
    "conviction_multiplier (conviction_level inp) = Some multiplier"
    "max_risk_pct (position_type inp) (conviction_level inp) = Some risk_pct"
    "initial_contracts r =
       step5_contracts (trade_structure inp)
         (portfolio_total_value inp * (base * multiplier))
         (portfolio_total_value inp * risk_pct)
         (capital_per_contract inp) (max_loss_per_spread inp)"
    "final_contracts r =
       step7_contracts (existing_exposure_pct inp) (portfolio_total_value inp)
         (capital_per_contract inp)
         (step6_contracts (current_position_correlation inp) (initial_contracts r))"
    "\<not> final_contracts r * max_loss_per_spread inp / portfolio_total_value inp * 100 > 5"
  using assms
  by (auto simp: calculate_sizing_def Let_def split: option.splits if_splits)

text \<open>
  Claim C1.  Whenever the position sizer returns a result for a portfolio of positive
  value, the final unit count times the per-unit maximum loss is at most 5 percent of
  the portfolio value, whatever the classification, the conviction, the structure
  family, the correlation and the existing exposure.  (Step 8, check 4, aborts every
  run that would exceed it.)
\<close>

theorem sizing_risk_within_absolute_ceiling:
  assumes "0 < portfolio_total_value inp"
      and "calculate_sizing inp = Inr r"
  shows "final_contracts r * max_loss_per_spread inp \<le> 0.05 * portfolio_total_value inp"
proof -
  from assms(2)
  have "\<not> final_contracts r * max_loss_per_spread inp / portfolio_total_value inp * 100 > 5"
    by (rule calculate_sizing_InrE)
  then have "final_contracts r * max_loss_per_spread inp / portfolio_total_value inp * 100 \<le> 5"
    by (simp add: not_less)
  with assms(1) show ?thesis by (simp add: field_simps)
qed

theorem sizing_risk_within_absolute_ceiling_witness:
  "0 < portfolio_total_value nvda_call_vertical
   \<and> calculate_sizing nvda_call_vertical =
       Inr \<lparr> initial_contracts = 2, final_contracts = 2, total_risk = 2400,
             recommendation = None, sizing_warnings = [] \<rparr>
   \<and> (2::real) * 1200 \<le> 0.05 * 100000"
proof -
  have P: "0 < portfolio_total_value nvda_call_vertical"
    by (simp add: nvda_call_vertical_def)
  from sizing_risk_within_absolute_ceiling [OF P nvda_call_vertical_sized]
  show ?thesis using P nvda_call_vertical_sized by (simp add: nvda_call_vertical_def)
qed

text \<open>
  The check is live on the stock path, which sizes from the allocation alone: with a
  stop 20 dollars away the 300 shares would risk 6 percent, and the run aborts.
\<close>

lemma stock_wide_stop_aborts: "calculate_sizing stock_wide_stop = Inl RiskExceedsFivePercent"
  by (simp add: stock_wide_stop_def stock_round_lot_def sizing_defs Let_def)

text \<open>
  On the two spread paths the sizer's own arithmetic already keeps the risk within the
  budget of the classification and conviction (at most 3 percent).
\<close>

lemma round_down_le: "round_down x \<le> x"
  by (simp add: round_down_def)

lemma round_down_nonneg: "0 \<le> x \<Longrightarrow> 0 \<le> round_down x"
  by (simp add: round_down_def)

lemma correlation_reduction_le_one: "correlation_reduction c \<le> 1"
  by (simp add: correlation_reduction_def)

lemma step6_contracts_le: "0 \<le> n \<Longrightarrow> step6_contracts c n \<le> n"
proof (cases c)
  case None
  then show ?thesis by (simp add: step6_contracts_def)
next
  case (Some x)
  assume n: "0 \<le> n"
  have "round_down (n * correlation_reduction x) \<le> n * correlation_reduction x"
    by (rule round_down_le)
  also have "\<dots> \<le> n * 1"
    using n correlation_reduction_le_one [of x] by (intro mult_left_mono) auto
  finally show ?thesis using Some by (simp add: step6_contracts_def)
qed

lemma step7_contracts_le: "step7_contracts e p v n \<le> n"
  by (cases e) (simp_all add: step7_contracts_def Let_def)

lemma spread_risk_within_budget:
  assumes r: "calculate_sizing inp = Inr r"
      and fam: "trade_structure inp = DebitSpread \<or> trade_structure inp = CreditSpread"
      and P: "0 < portfolio_total_value inp" and m: "0 < max_loss_per_spread inp"
      and c: "0 < capital_per_contract inp"
      and rp: "max_risk_pct (position_type inp) (conviction_level inp) = Some risk_pct"
  shows "final_contracts r * max_loss_per_spread inp \<le> portfolio_total_value inp * risk_pct"
proof -
  let ?P = "portfolio_total_value inp" and ?m = "max_loss_per_spread inp"
  from r obtain base multiplier risk_pct' where
    b: "base_allocation_pct (position_type inp) = Some base"
    and mu: "conviction_multiplier (conviction_level inp) = Some multiplier"
    and rp': "max_risk_pct (position_type inp) (conviction_level inp) = Some risk_pct'"
    and i: "initial_contracts r =
       step5_contracts (trade_structure inp) (?P * (base * multiplier)) (?P * risk_pct')
         (capital_per_contract inp) ?m"
    and f: "final_contracts r =
       step7_contracts (existing_exposure_pct inp) ?P (capital_per_contract inp)
         (step6_contracts (current_position_correlation inp) (initial_contracts r))"
    by (rule calculate_sizing_InrE)
  from rp rp' have [simp]: "risk_pct' = risk_pct" by simp
  have rpos: "0 \<le> risk_pct"
    using rp by (auto simp: max_risk_pct_def split: if_splits)
  have bpos: "0 \<le> base * multiplier"
    using b mu by (auto simp: base_allocation_pct_def conviction_multiplier_def split: if_splits)
  have risk0: "0 \<le> contracts_from_risk (?P * risk_pct) ?m"
    unfolding contracts_from_risk_def using P m rpos by (intro round_down_nonneg) simp
  have alloc0:
    "0 \<le> contracts_from_allocation (?P * (base * multiplier)) (capital_per_contract inp)"
    unfolding contracts_from_allocation_def using P c bpos by (intro round_down_nonneg) simp
  have i0: "0 \<le> initial_contracts r"
    and ile: "initial_contracts r \<le> contracts_from_risk (?P * risk_pct) ?m"
    using fam i risk0 alloc0 by (auto simp: step5_contracts_def)
  have "final_contracts r \<le> initial_contracts r"
    using step7_contracts_le step6_contracts_le [OF i0] f by (metis order_trans)
  also note ile
  also have "contracts_from_risk (?P * risk_pct) ?m \<le> ?P * risk_pct / ?m"
    by (simp add: contracts_from_risk_def round_down_le)
  finally have "final_contracts r \<le> ?P * risk_pct / ?m" .
  with m show ?thesis by (simp add: pos_le_divide_eq)
qed

text \<open>
  Claim C7, as amended.  For a debit spread the unit count before the correlation and
  concentration adjustments is the minimum of the allocation-based count and the
  risk-based count, each rounded down; for a credit spread it is the risk-based count
  alone.  (A stock position is sized from the allocation in round lots, see the
  counterexample.)  The witness is the task's example: core, high conviction, 1,200
  dollars per contract on 100,000 dollars gives 8 and 2, and the final size is 2.
\<close>

theorem unit_count_by_structure_family:
  assumes "calculate_sizing inp = Inr r"
  shows "\<exists>base multiplier risk_pct.
           base_allocation_pct (position_type inp) = Some base
         \<and> conviction_multiplier (conviction_level inp) = Some multiplier
         \<and> max_risk_pct (position_type inp) (conviction_level inp) = Some risk_pct
         \<and> (trade_structure inp = DebitSpread \<longrightarrow>
              initial_contracts r =
                min (contracts_from_allocation
                       (portfolio_total_value inp * (base * multiplier))
                       (capital_per_contract inp))
                    (contracts_from_risk
                       (portfolio_total_value inp * risk_pct) (max_loss_per_spread inp)))
         \<and> (trade_structure inp = CreditSpread \<longrightarrow>
              initial_contracts r =
                contracts_from_risk
                  (portfolio_total_value inp * risk_pct) (max_loss_per_spread inp))"
  using assms
  by (elim calculate_sizing_InrE) (simp add: step5_contracts_def)

theorem unit_count_by_structure_family_witness:
  "calculate_sizing nvda_call_vertical =
     Inr \<lparr> initial_contracts = 2, final_contracts = 2, total_risk = 2400,
           recommendation = None, sizing_warnings = [] \<rparr>
   \<and> contracts_from_allocation (100000 * (0.10 * 1.0)) 1200 = 8
   \<and> contracts_from_risk (100000 * 0.03) 1200 = 2
   \<and> (2::real) = min (contracts_from_allocation (100000 * (0.10 * 1.0)) 1200)
                       (contracts_from_risk (100000 * 0.03) 1200)"
  using unit_count_by_structure_family [OF nvda_call_vertical_sized] nvda_call_vertical_sized
  by (simp add: contracts_from_allocation_def contracts_from_risk_def round_down_def)

text \<open>
  The claim as stated, for every sizing input, fails on a stock position: 10,000
  dollars of allocation at 30 dollars a share is 333 shares, rounded down to the lot of
  300; the risk budget of 3,000 dollars over a 12 dollar stop distance is 250 shares.
  The sizer returns 300, not the minimum 250.
\<close>

theorem stock_count_not_minimum:
  "calculate_sizing stock_round_lot =
     Inr \<lparr> initial_contracts = 300, final_contracts = 300, total_risk = 3600,
           recommendation = None, sizing_warnings = [] \<rparr>
   \<and> min (contracts_from_allocation (100000 * (0.10 * 1.0)) 30)
         (contracts_from_risk (100000 * 0.03) 12) = 250"
  using stock_round_lot_sized
  by (simp add: contracts_from_allocation_def contracts_from_risk_def round_down_def)

text \<open>
  The task's "Speculative Position" example prints one contract for a risk-based count
  of zero, after halving the loss estimate.  Step 5 has no such recalculation: the
  count is 0 and the position is too small.
\<close>

lemma amd_short_strangle_sized:
  "calculate_sizing amd_short_strangle =
     Inr \<lparr> initial_contracts = 0, final_contracts = 0, total_risk = 0,
           recommendation =
             Some ''Position too small - consider larger portfolio or different trade'',
           sizing_warnings = [] \<rparr>"
  by (simp add: amd_short_strangle_def sizing_defs Let_def)

subsection \<open>The risk limits of the sizer and of the checklist\<close>

text \<open>
  Claim C10, as amended.  For each of the six pairs of position type and conviction,
  both tasks assign a limit, and the sizer's (a fraction, here times 100) is at most the
  checklist's (a percentage).  They are equal exactly for core with high or moderate
  conviction and for speculative with high conviction.
\<close>

theorem sizer_limit_at_most_gate_limit:
  assumes "ptype \<in> {''core'', ''speculative''}" "cv \<in> {''HIGH'', ''MODERATE'', ''LOW''}"
  shows "max_risk_pct ptype cv \<noteq> None \<and> max_risk_allowed ptype cv \<noteq> None
         \<and> the (max_risk_pct ptype cv) * 100 \<le> the (max_risk_allowed ptype cv)
         \<and> (the (max_risk_pct ptype cv) * 100 = the (max_risk_allowed ptype cv) \<longleftrightarrow>
              (ptype = ''core'' \<and> cv \<noteq> ''LOW'') \<or> (ptype = ''speculative'' \<and> cv = ''HIGH''))"
proof -
  from assms(1) have p: "ptype = ''core'' \<or> ptype = ''speculative''" by simp
  from assms(2) have c: "cv = ''HIGH'' \<or> cv = ''MODERATE'' \<or> cv = ''LOW''" by simp
  from p c show ?thesis
    by (elim disjE) (simp_all add: max_risk_pct_def max_risk_allowed_def)
qed

theorem sizer_limit_at_most_gate_limit_witness:
  "max_risk_pct ''speculative'' ''MODERATE'' = Some 0.015
   \<and> max_risk_allowed ''speculative'' ''MODERATE'' = Some 2
   \<and> (0.015 :: real) * 100 \<le> 2"
  using sizer_limit_at_most_gate_limit [of "''speculative''" "''MODERATE''"]
  by (simp add: max_risk_pct_def max_risk_allowed_def)

text \<open>
  The two tables are not the same: for a core position of low conviction the sizer
  allows 1 percent and the checklist 2 percent.
\<close>

theorem core_low_limits_differ:
  "max_risk_pct ''core'' ''LOW'' = Some 0.01 \<and> max_risk_allowed ''core'' ''LOW'' = Some 2
   \<and> (0.01 :: real) * 100 \<noteq> 2"
  by (simp add: max_risk_pct_def max_risk_allowed_def)

subsection \<open>Liquidity\<close>

lemmas liquidity_defs =
  check_liquidity_def liquidity_rejections_def liquidity_warnings_def liquidity_score_def
  spread_pct_def spread_dollars_def mid_price_def tier_of_def step3_rejections_def
  step4_rejections_def step5_rejections_def step7_rejections_def step8_rejections_def
  step9_rejections_def min_volume_threshold_def distance_from_atm_def spread_points_def
  volume_points_def open_interest_points_def depth_points_def recency_points_def rating_of_def

lemma nvda_520_call_spread: "spread_pct nvda_520_call = Some (40 / 33)"
  by (simp add: nvda_520_call_def spread_pct_def spread_dollars_def mid_price_def)

text \<open>
  Claim C5.  A contract whose spread exceeds 1.0 percent of its mid price is rejected,
  whatever its volume, open interest, depth and recency, and whatever the position
  size and the stock check: the rejection does not read the composite score.  The
  witness is the second contract of the task's PASS example, whose spread of 0.20 on a
  mid of 16.50 is 1.21 percent while the four other components score their maximum.
\<close>

theorem spread_over_cap_rejects:
  assumes "spread_pct q = Some s" and "s > 1.0"
  shows "\<not> approved (check_liquidity q n stock_check)
         \<and> SpreadUnacceptable \<in> set (rejections (check_liquidity q n stock_check))"
  using assms
  by (simp add: check_liquidity_def liquidity_rejections_def step3_rejections_def tier_of_def)

theorem spread_over_cap_rejects_witness:
  "spread_pct nvda_520_call = Some (40 / 33) \<and> (40 / 33 :: real) > 1.0
   \<and> volume_points (volume_today nvda_520_call) = 20
   \<and> open_interest_points (open_interest nvda_520_call) = 20
   \<and> depth_points nvda_520_call 2 = 20
   \<and> recency_points (last_trade_minutes nvda_520_call) = 20
   \<and> \<not> approved (check_liquidity nvda_520_call 2 None)"
  using spread_over_cap_rejects [OF nvda_520_call_spread, of 2 None]
  by (simp add: nvda_520_call_def liquidity_defs Let_def)

text \<open>
  Between 0.5 and 1.0 percent the tier is POOR and its warning is attached, and the
  primary rule of Step 3 rejects.
\<close>

lemma spread_between_bands:
  assumes "spread_pct q = Some s" "0.5 < s" "s \<le> 1.0"
  shows "tier (check_liquidity q n sc) = Some POOR"
    and "SpreadPoor \<in> set (warnings (check_liquidity q n sc))"
    and "SpreadTooWide \<in> set (rejections (check_liquidity q n sc))"
    and "\<not> approved (check_liquidity q n sc)"
  using assms
  by (simp_all add: check_liquidity_def liquidity_rejections_def liquidity_warnings_def
      step3_rejections_def tier_of_def)

text \<open>
  Claim C6.  The claim has the leg with bid 28.40 and ask 28.60 approved with a
  warning, in the tier "acceptable".  The processing logic gives it a spread of 40/57
  (about 0.70) percent, the tier POOR, the warning, 90 points, and one rejection: the
  primary rule of Step 3.
\<close>

theorem nvda_500_call_checked:
  "check_liquidity nvda_500_call 2 None =
     \<lparr> spread_pct_of_mid = Some (40 / 57), tier = Some POOR, score = 90,
       rating = RATING_EXCELLENT, rejections = [SpreadTooWide], warnings = [SpreadPoor],
       approved = False \<rparr>"
  by (simp add: nvda_500_call_def liquidity_defs Let_def)

subsection \<open>Mechanism selection\<close>

text \<open>
  Claim C8.  When earnings fall within 7 days, or the correlation with an existing
  position is above 0.8, or the technical-quality score is below 5, the selector
  returns NO_EDGE, whatever the decision tree matched.  The witness is an earnings play
  five days before the announcement: the tree matches EARNINGS_VOLATILITY, the result
  is NO_EDGE.
\<close>

theorem override_forces_no_edge:
  assumes "earnings_within t 7
           \<or> (\<exists>c. ticker_correlation t = Some c \<and> c > 0.8)
           \<or> technical_quality_score t < 5"
  shows "fit_mechanism t = NO_EDGE"
  using assms
  by (auto simp: fit_mechanism_def override_to_no_edge_def)

theorem override_forces_no_edge_witness:
  "earnings_within earnings_in_five_days 7
   \<and> match_mechanism earnings_in_five_days = EARNINGS_VOLATILITY
   \<and> fit_mechanism earnings_in_five_days = NO_EDGE"
proof -
  have e: "earnings_within earnings_in_five_days 7"
    by (simp add: earnings_within_def earnings_in_five_days_def)
  have "fit_mechanism earnings_in_five_days = NO_EDGE"
    by (rule override_forces_no_edge) (simp add: e)
  moreover have "match_mechanism earnings_in_five_days = EARNINGS_VOLATILITY"
    by (simp add: match_mechanism_def earnings_within_def iv_rank_below_def
        earnings_in_five_days_def)
  ultimately show ?thesis using e by simp
qed

subsection \<open>Beta weighting\<close>

lemma sum_positions_total:
  "sum_positions spy ps = Inr (tot, skips) \<Longrightarrow>
     tot = (\<Sum>p\<leftarrow>ps. contribution spy p)
   \<and> skips = map ticker (filter (\<lambda>p. position_delta p = None) ps)"
proof (induction ps arbitrary: tot skips)
  case Nil
  then show ?case by simp
next
  case (Cons p ps)
  then show ?case
    by (auto simp: contribution_def split: if_splits sum.splits option.splits)
qed

lemma sum_positions_defined:
  "\<forall>p\<in>set ps. 0 < stock_price p \<Longrightarrow> \<exists>tot skips. sum_positions spy ps = Inr (tot, skips)"
proof (induction ps)
  case Nil
  then show ?case by simp
next
  case (Cons p ps)
  then obtain tot skips where "sum_positions spy ps = Inr (tot, skips)" by auto
  with Cons.prems show ?case by (cases "position_delta p") auto
qed

text \<open>
  Claim C9, as amended.  With a SPY price in its valid range and positive stock
  prices the beta weighting always produces a total; a missing beta or delta aborts
  nothing.  The total is the sum of the rows' contributions, where a row without a
  delta contributes nothing and is listed as skipped, and a row without a beta
  contributes with beta 1.0.
\<close>

theorem beta_weighting_total:
  assumes "300 \<le> spy_price" "spy_price \<le> 600" "\<forall>p\<in>set portfolio. 0 < stock_price p"
  shows "\<exists>r. calc_beta_weighting spy_price portfolio = Inr r
           \<and> total_beta_weighted_delta r = (\<Sum>p\<leftarrow>portfolio. contribution spy_price p)
           \<and> skipped r = map ticker (filter (\<lambda>p. position_delta p = None) portfolio)"
proof -
  from sum_positions_defined [OF assms(3)] obtain tot skips
    where s: "sum_positions spy_price portfolio = Inr (tot, skips)" by blast
  from sum_positions_total [OF s] s assms(1,2) show ?thesis
    by (simp add: calc_beta_weighting_def)
qed

theorem beta_weighting_total_witness:
  "calc_beta_weighting 450 [aapl_no_beta, msft_no_delta] =
     Inr \<lparr> total_beta_weighted_delta = 20, dollar_exposure = 9000,
           bias = LONG, skipped = [''MSFT''] \<rparr>
   \<and> contribution 450 aapl_no_beta = 50 * 1.0 * 180 / 450
   \<and> contribution 450 msft_no_delta = 0"
proof -
  have "\<forall>p\<in>set [aapl_no_beta, msft_no_delta]. 0 < stock_price p"
    by (simp add: aapl_no_beta_def msft_no_delta_def)
  from beta_weighting_total [OF _ _ this, of 450] show ?thesis
    by (auto simp: contribution_def beta_weighted_delta_def beta_or_default_def
        aapl_no_beta_def msft_no_delta_def calc_beta_weighting_def bias_of_def)
qed

text \<open>
  The claim as stated fails: a row without a beta is weighted with 1.0, and a row
  without a delta is skipped, and the total is produced all the same.
\<close>

theorem missing_beta_and_delta_not_aborted:
  "calc_beta_weighting 450 [aapl_no_beta, msft_no_delta] =
     Inr \<lparr> total_beta_weighted_delta = 50 * 1.0 * 180 / 450, dollar_exposure = 9000,
           bias = LONG, skipped = [''MSFT''] \<rparr>"
  by (simp add: calc_beta_weighting_def aapl_no_beta_def msft_no_delta_def bias_of_def
      beta_weighted_delta_def beta_or_default_def)

subsection \<open>Pre-trade checklist: the order of the sections\<close>

lemmas gate_defs =
  section_result_of_def section1_def section2_def section3_def section4_def section5_def
  section6_def section7_def section8_def section9_def event_flags_def high_impact_events_def
  position_dollars_def combined_exposure_pct_def correlated_exposure_def
  combined_correlated_exposure_pct_def position_pct_def max_loss_def max_loss_pct_def
  exceeds_def max_pct_def max_risk_allowed_def counter_to_disposition_def clear_downtrend_def
  level_warnings_def risk_reward_ratio_def total_risk_pct_def ticker_exposure_def
  final_checklist_def unticked_def is_rejected_def

lemma nvda_sections_run:
  "run_sections (section_result_of nvda_trade msft_ledger) [1..<10] =
     ([1, 2, 3, 4, 5, 6, 7, 8, 9], [], None)"
  by (simp add: upt_rec nvda_trade_def msft_ledger_def gate_defs)

lemma nvda_trade_approved:
  "pre_trade_checklist nvda_trade msft_ledger =
     \<lparr> sections_run = [1, 2, 3, 4, 5, 6, 7, 8, 9], gate_warnings = [], halt_reason = None,
       failed_items = [], status = ''APPROVED'' \<rparr>"
  unfolding pre_trade_checklist_def nvda_sections_run
  by (simp add: nvda_trade_def msft_ledger_def gate_defs upt_rec)

lemma nvda_before_earnings_rejected:
  "pre_trade_checklist nvda_before_earnings msft_ledger =
     \<lparr> sections_run = [1, 2], gate_warnings = [], halt_reason = Some ''Earnings too close'',
       failed_items = [], status = ''REJECTED'' \<rparr>"
  by (simp add: pre_trade_checklist_def upt_rec nvda_before_earnings_def nvda_trade_def
      msft_ledger_def gate_defs)

text \<open>The runner stops at the first rejecting section and runs every section before it.\<close>

lemma run_sections_halt:
  assumes "\<forall>j\<in>set pre. \<not> is_rejected (f j)" "is_rejected (f k)"
  shows "\<exists>ws reason. run_sections f (pre @ k # post) = (pre @ [k], ws, Some reason)"
  using assms
proof (induction pre)
  case Nil
  then show ?case by (cases "f k") (simp_all add: is_rejected_def)
next
  case (Cons j pre)
  then obtain ws reason where "run_sections f (pre @ k # post) = (pre @ [k], ws, Some reason)"
    by auto
  moreover from Cons.prems obtain js where "f j = Passed js"
    by (cases "f j") (simp_all add: is_rejected_def)
  ultimately show ?case by simp
qed

lemma run_sections_all:
  assumes "\<forall>j\<in>set ks. \<not> is_rejected (f j)"
  shows "\<exists>ws. run_sections f ks = (ks, ws, None)"
  using assms
proof (induction ks)
  case Nil
  then show ?case by simp
next
  case (Cons j ks)
  then obtain ws where "run_sections f ks = (ks, ws, None)" by auto
  moreover from Cons.prems obtain js where "f j = Passed js"
    by (cases "f j") (simp_all add: is_rejected_def)
  ultimately show ?case by simp
qed

lemma upt_split:
  assumes "1 \<le> k" "k \<le> 9"
  shows "[1..<10] = [1..<k] @ k # [Suc k..<10]"
proof -
  have "[1..<k + (10 - k)] = [1..<k] @ [k..<k + (10 - k)]"
    using assms(1) by (rule upt_add_eq_append)
  moreover have "k + (10 - k) = 10" using assms(2) by simp
  moreover have "[k..<10] = k # [Suc k..<10]"
    using assms(2) by (simp add: upt_conv_Cons)
  ultimately show ?thesis by simp
qed

lemma halt_at:
  assumes k: "1 \<le> k" "k \<le> 9" and rej: "is_rejected (section_result_of inp ledger k)"
      and before: "\<forall>j\<in>{1..<k}. \<not> is_rejected (section_result_of inp ledger j)"
  shows "sections_run (pre_trade_checklist inp ledger) = [1..<Suc k]"
    and "status (pre_trade_checklist inp ledger) = ''REJECTED''"
proof -
  from before have "\<forall>j\<in>set [1..<k]. \<not> is_rejected (section_result_of inp ledger j)" by simp
  from run_sections_halt [OF this rej, of "[Suc k..<10]"] upt_split [OF k]
  obtain ws reason where
    r: "run_sections (section_result_of inp ledger) [1..<10] = ([1..<k] @ [k], ws, Some reason)"
    by auto
  have "[1..<k] @ [k] = [1..<Suc k]" using k by simp
  with r show "sections_run (pre_trade_checklist inp ledger) = [1..<Suc k]"
    by (simp add: pre_trade_checklist_def)
  from r show "status (pre_trade_checklist inp ledger) = ''REJECTED''"
    by (simp add: pre_trade_checklist_def)
qed

text \<open>
  Claim C4.  The nine sections run in the order 1 to 9.  On every input on which some
  section rejects, the sections that run are exactly those up to and including the
  first rejecting one, none after it, and the status is REJECTED.
\<close>

theorem first_rejection_halts:
  assumes "\<exists>k\<in>{1..9}. is_rejected (section_result_of inp ledger k)"
  shows "status (pre_trade_checklist inp ledger) = ''REJECTED''
       \<and> (\<exists>k\<in>{1..9}. is_rejected (section_result_of inp ledger k)
             \<and> (\<forall>j\<in>{1..<k}. \<not> is_rejected (section_result_of inp ledger j))
             \<and> sections_run (pre_trade_checklist inp ledger) = [1..<Suc k])"
proof -
  define P where "P k \<longleftrightarrow> k \<in> {1..9} \<and> is_rejected (section_result_of inp ledger k)" for k
  from assms have ex: "\<exists>k. P k" by (auto simp: P_def)
  define k where "k = (LEAST k. P k)"
  have Pk: "P k" unfolding k_def using ex by (auto intro: LeastI)
  have least: "\<not> P j" if "j < k" for j
    using that unfolding k_def by (rule not_less_Least)
  have k19: "1 \<le> k" "k \<le> 9" and rej: "is_rejected (section_result_of inp ledger k)"
    using Pk by (auto simp: P_def)
  have before: "\<forall>j\<in>{1..<k}. \<not> is_rejected (section_result_of inp ledger j)"
  proof
    fix j assume j: "j \<in> {1..<k}"
    then have "\<not> P j" using least by simp
    moreover from j k19 have "j \<in> {1..9}" by simp
    ultimately show "\<not> is_rejected (section_result_of inp ledger j)" by (simp add: P_def)
  qed
  from halt_at [OF k19 rej before] k19 rej before show ?thesis by auto
qed

theorem first_rejection_halts_witness:
  "is_rejected (section_result_of nvda_before_earnings msft_ledger 2)
   \<and> status (pre_trade_checklist nvda_before_earnings msft_ledger) = ''REJECTED''
   \<and> sections_run (pre_trade_checklist nvda_before_earnings msft_ledger) = [1, 2]"
proof -
  have r: "is_rejected (section_result_of nvda_before_earnings msft_ledger 2)"
    by (simp add: nvda_before_earnings_def nvda_trade_def gate_defs)
  then have "\<exists>k\<in>{1..9}. is_rejected (section_result_of nvda_before_earnings msft_ledger k)"
    by (intro bexI [of _ 2]) simp_all
  from first_rejection_halts [OF this] r show ?thesis
    by (simp add: nvda_before_earnings_rejected)
qed

text \<open>When no section rejects, all nine run, in order, and Section 10 decides.\<close>

lemma no_rejection_runs_all:
  assumes "\<forall>k\<in>{1..9}. \<not> is_rejected (section_result_of inp ledger k)"
  shows "sections_run (pre_trade_checklist inp ledger) = [1..<10]"
proof -
  from assms have "\<forall>j\<in>set [1..<10]. \<not> is_rejected (section_result_of inp ledger j)" by simp
  from run_sections_all [OF this] show ?thesis
    by (auto simp: pre_trade_checklist_def)
qed

text \<open>
  An approved trade went through every section, Section 4 among them, so its maximum
  loss is at most 5 percent of the portfolio value.
\<close>

lemma run_sections_no_halt:
  "run_sections f ks = (seen, ws, None) \<Longrightarrow> \<forall>k\<in>set ks. \<not> is_rejected (f k)"
proof (induction ks arbitrary: seen ws)
  case Nil
  then show ?case by simp
next
  case (Cons k ks)
  then show ?case
    by (cases "f k") (auto simp: is_rejected_def split: prod.splits)
qed

lemma approved_max_loss_within_five_percent:
  assumes "status (pre_trade_checklist inp ledger) = ''APPROVED''"
  shows "max_loss_pct inp \<le> 5"
proof -
  from assms obtain seen ws where
    "run_sections (section_result_of inp ledger) [1..<10] = (seen, ws, None)"
    by (auto simp: pre_trade_checklist_def split: prod.splits option.splits)
  from run_sections_no_halt [OF this]
  have "\<not> is_rejected (section_result_of inp ledger 4)" by simp
  then show ?thesis
    by (auto simp: section_result_of_def section4_def is_rejected_def split: if_splits)
qed

subsection \<open>Pre-trade checklist: the ledger limits\<close>

text \<open>What an approval says: every item of the final checklist is ticked.\<close>

lemma approved_items:
  assumes "status (pre_trade_checklist inp ledger) = ''APPROVED''"
  shows "list_all (\<lambda>b. b) (final_checklist inp ledger)"
  using assms
  by (auto simp: pre_trade_checklist_def split: prod.splits option.splits if_splits)

lemma approved_facts:
  assumes "status (pre_trade_checklist inp ledger) = ''APPROVED''"
  shows "list_all (\<lambda>(u, e). calculate_correlation inp (trade_ticker inp) u < 0.8) (holdings ledger)"
    and "combined_exposure_pct inp (ticker_exposure (holdings ledger) (trade_ticker inp)) \<le> 15"
    and "total_risk_pct inp ledger \<le> 15"
  using approved_items [OF assms] by (simp_all add: final_checklist_def)

lemma ticker_exposure_entry:
  "distinct (map fst hs) \<Longrightarrow> (u, e) \<in> set hs \<Longrightarrow> ticker_exposure hs u = e"
  by (simp add: ticker_exposure_def)

lemma key_sum:
  "distinct (map fst hs) \<Longrightarrow>
     sum_list (map snd (filter (\<lambda>(w, e). w = u) hs)) = ticker_exposure hs u"
proof (induction hs)
  case Nil
  then show ?case by (simp add: ticker_exposure_def)
next
  case (Cons a hs)
  obtain w e where a: "a = (w, e)" by (cases a)
  show ?case
  proof (cases "w = u")
    case True
    with Cons.prems a have "u \<notin> fst ` set hs" by auto
    then have "filter (\<lambda>(w, e). w = u) hs = []"
      by (force simp: filter_empty_conv)
    with True a show ?thesis by (simp add: ticker_exposure_def)
  next
    case False
    with Cons a show ?thesis by (simp add: ticker_exposure_def)
  qed
qed

lemma add_exposure_keys:
  "map fst (add_exposure t v hs) = (if t \<in> fst ` set hs then map fst hs else map fst hs @ [t])"
proof -
  have "map fst (map (\<lambda>(u, e). if u = t then (u, e + v) else (u, e)) hs) = map fst hs"
    by (induction hs) auto
  then show ?thesis by (simp add: add_exposure_def)
qed

lemma add_exposure_distinct:
  "distinct (map fst hs) \<Longrightarrow> distinct (map fst (add_exposure t v hs))"
  by (auto simp: add_exposure_keys)

lemma update_sum:
  fixes hs :: "(string \<times> real) list"
  assumes "distinct (map fst hs)" "t \<in> fst ` set hs"
  shows "sum_list (map snd (filter (\<lambda>(w, e). Q w)
            (map (\<lambda>(u, e). if u = t then (u, e + v) else (u, e)) hs)))
         = sum_list (map snd (filter (\<lambda>(w, e). Q w) hs)) + (if Q t then v else 0)"
  using assms
proof (induction hs)
  case Nil
  then show ?case by simp
next
  case (Cons a hs)
  obtain w e where a: "a = (w, e)" by (cases a)
  show ?case
  proof (cases "w = t")
    case True
    with Cons.prems a have "t \<notin> fst ` set hs" by auto
    then have "map (\<lambda>(u, e). if u = t then (u, e + v) else (u, e)) hs = hs"
      by (intro map_idI) force
    with True a show ?thesis by simp
  next
    case False
    with Cons.prems a have "t \<in> fst ` set hs" "distinct (map fst hs)" by auto
    from Cons.IH [OF this(2) this(1)] False a show ?thesis by simp
  qed
qed

lemma add_exposure_sum:
  fixes hs :: "(string \<times> real) list"
  assumes "distinct (map fst hs)"
  shows "sum_list (map snd (filter (\<lambda>(w, e). Q w) (add_exposure t v hs)))
         = sum_list (map snd (filter (\<lambda>(w, e). Q w) hs)) + (if Q t then v else 0)"
proof (cases "t \<in> fst ` set hs")
  case True
  with update_sum [OF assms True, of Q v] show ?thesis by (simp add: add_exposure_def)
next
  case False
  then show ?thesis by (simp add: add_exposure_def)
qed

lemma add_exposure_entry:
  assumes d: "distinct (map fst hs)" and m: "(u, e') \<in> set (add_exposure t v hs)"
  shows "e' = ticker_exposure hs u + (if u = t then v else 0)"
proof -
  have "e' = ticker_exposure (add_exposure t v hs) u"
    using ticker_exposure_entry [OF add_exposure_distinct [OF d] m] by simp
  also have "\<dots> = sum_list (map snd (filter (\<lambda>(w, e). w = u) (add_exposure t v hs)))"
    using key_sum [OF add_exposure_distinct [OF d]] by simp
  also have "\<dots> = sum_list (map snd (filter (\<lambda>(w, e). w = u) hs)) + (if u = t then v else 0)"
    using add_exposure_sum [OF d, of "\<lambda>w. w = u" t v] by (simp add: eq_commute)
  finally show ?thesis using key_sum [OF d] by simp
qed

lemma held_entry:
  assumes "distinct (map fst hs)" "u \<in> fst ` set hs"
  shows "(u, ticker_exposure hs u) \<in> set hs"
proof -
  from assms(2) obtain e where e: "(u, e) \<in> set hs" by auto
  with ticker_exposure_entry [OF assms(1) e] show ?thesis by simp
qed

text \<open>
  Claim C2.  For a portfolio of positive value and a symmetric correlation, a step of
  the risk gate keeps a ledger within its limits: one entry per ticker, aggregate open risk
  at most 15 percent, every ticker's exposure at most 15 percent, and every held
  ticker's correlated group (the holdings correlated above 0.8 with it, and itself) at
  most 25 percent.  An approved trade is committed, a rejected one changes nothing.
\<close>

theorem approved_commit_keeps_limits:
  assumes P: "0 < portfolio_value inp"
      and sym: "\<forall>a b. calculate_correlation inp a b = calculate_correlation inp b a"
      and inv: "within_limits (calculate_correlation inp) (portfolio_value inp) ledger"
  shows "within_limits (calculate_correlation inp) (portfolio_value inp) (gate_step inp ledger)"
proof (cases "status (pre_trade_checklist inp ledger) = ''APPROVED''")
  case False
  with inv show ?thesis by (simp add: gate_step_def)
next
  case True
  let ?corr = "calculate_correlation inp" and ?pv = "portfolio_value inp"
  let ?t = "trade_ticker inp" and ?v = "position_dollars inp"
  let ?hs = "holdings ledger"
  let ?hs' = "add_exposure ?t ?v ?hs"
  from inv have d: "distinct (map fst ?hs)"
    and risk: "open_risk ledger / ?pv * 100 \<le> 15"
    and single: "\<forall>(u, e)\<in>set ?hs. e / ?pv * 100 \<le> 15"
    and group: "\<forall>(u, e)\<in>set ?hs. correlated_exposure ?corr ?hs u / ?pv * 100 \<le> 25"
    by (simp_all add: within_limits_def list_all_iff)
  from approved_facts [OF True]
  have uncorr: "\<forall>(u, e)\<in>set ?hs. ?corr ?t u < 0.8"
    and a5: "(ticker_exposure ?hs ?t + ?v) / ?pv * 100 \<le> 15"
    and a12: "(open_risk ledger + max_loss inp) / ?pv * 100 \<le> 15"
    by (simp_all add: list_all_iff combined_exposure_pct_def total_risk_pct_def)
  have step: "gate_step inp ledger = \<lparr> holdings = ?hs', open_risk = open_risk ledger + max_loss inp \<rparr>"
    using True by (simp add: gate_step_def commit_def)
  have d': "distinct (map fst ?hs')" using d by (rule add_exposure_distinct)
  have single': "e' / ?pv * 100 \<le> 15" if m: "(u, e') \<in> set ?hs'" for u e'
  proof (cases "u = ?t")
    case True
    with add_exposure_entry [OF d m] a5 show ?thesis by simp
  next
    case False
    with add_exposure_entry [OF d m] have e': "e' = ticker_exposure ?hs u" by simp
    from m have "u \<in> set (map fst ?hs')" by force
    with False have "u \<in> fst ` set ?hs" by (auto simp: add_exposure_keys split: if_splits)
    from held_entry [OF d this] single e' show ?thesis by auto
  qed
  have group': "correlated_exposure ?corr ?hs' u / ?pv * 100 \<le> 25"
    if m: "(u, e') \<in> set ?hs'" for u e'
  proof (cases "u = ?t")
    case True
    have "filter (\<lambda>(w, e). w = ?t \<or> ?corr ?t w > 0.8) ?hs = filter (\<lambda>(w, e). w = ?t) ?hs"
      using uncorr by (intro filter_cong) auto
    then have "correlated_exposure ?corr ?hs ?t = ticker_exposure ?hs ?t"
      using key_sum [OF d, of ?t] by (simp add: correlated_exposure_def)
    with add_exposure_sum [OF d, of "\<lambda>w. w = ?t \<or> ?corr ?t w > 0.8" ?t ?v]
    have "correlated_exposure ?corr ?hs' ?t = ticker_exposure ?hs ?t + ?v"
      by (simp add: correlated_exposure_def)
    with a5 True show ?thesis by simp
  next
    case False
    from m have "u \<in> set (map fst ?hs')" by force
    with False have u: "u \<in> fst ` set ?hs" by (auto simp: add_exposure_keys split: if_splits)
    with uncorr have "?corr ?t u < 0.8" by auto
    with sym have "\<not> ?corr u ?t > 0.8" by (metis less_trans less_irrefl)
    with False add_exposure_sum [OF d, of "\<lambda>w. w = u \<or> ?corr u w > 0.8" ?t ?v]
    have "correlated_exposure ?corr ?hs' u = correlated_exposure ?corr ?hs u"
      by (simp add: correlated_exposure_def eq_commute)
    with held_entry [OF d u] group show ?thesis by auto
  qed
  from d' a12 single' group' show ?thesis
    unfolding step within_limits_def by (auto simp: list_all_iff)
qed

lemma nvda_trade_committed:
  "gate_step nvda_trade msft_ledger =
     \<lparr> holdings = [(''MSFT'', 12000), (''NVDA'', 2400)], open_risk = 6600 \<rparr>"
  unfolding gate_step_def nvda_trade_approved
  by (simp add: commit_def add_exposure_def nvda_trade_def msft_ledger_def
      position_dollars_def max_loss_def)

theorem approved_commit_keeps_limits_witness:
  "0 < portfolio_value nvda_trade
   \<and> within_limits (calculate_correlation nvda_trade) (portfolio_value nvda_trade) msft_ledger
   \<and> status (pre_trade_checklist nvda_trade msft_ledger) = ''APPROVED''
   \<and> within_limits (calculate_correlation nvda_trade) (portfolio_value nvda_trade)
        \<lparr> holdings = [(''MSFT'', 12000), (''NVDA'', 2400)], open_risk = 6600 \<rparr>"
proof -
  have P: "0 < portfolio_value nvda_trade" by (simp add: nvda_trade_def)
  have sym: "\<forall>a b. calculate_correlation nvda_trade a b = calculate_correlation nvda_trade b a"
    by (simp add: nvda_trade_def)
  have inv: "within_limits (calculate_correlation nvda_trade) (portfolio_value nvda_trade)
               msft_ledger"
    by (simp add: within_limits_def msft_ledger_def nvda_trade_def correlated_exposure_def)
  from approved_commit_keeps_limits [OF P sym inv] P inv show ?thesis
    by (simp add: nvda_trade_committed nvda_trade_approved)
qed

end
